theory Spec2Isabelle
  imports Complex_Main
begin

section \<open>Floating-point values\<close>

text \<open>
  Python and numpy floats are rendered as exact reals extended with the two infinities
  and NaN. Rounding, overflow to infinity and the sign of zero are not represented;
  division by zero, arithmetic on infinities and NaN propagation follow IEEE 754 as
  numpy applies it (no exception is raised, the result is an infinity or NaN).
  A double computation that cancels only up to rounding, such as the quotient of a
  quaternion by itself, cancels exactly here, and a square that overflows stays
  finite; no statement below rests on either: the statements are about values that
  are exact in doubles too (zero angles, the literal 0, differences \<open>x - x\<close>,
  products with zero), about the shape of the results and about which exceptions
  are raised.
\<close>

datatype pyfloat = Fin real | PInf | NInf | NaN

fun isnan :: "pyfloat \<Rightarrow> bool" where
  "isnan NaN = True"
| "isnan _ = False"

fun isfinite :: "pyfloat \<Rightarrow> bool" where
  "isfinite (Fin _) = True"
| "isfinite _ = False"

text \<open>The sign of a value that is not NaN, as a real: 1, -1 or 0.\<close>

fun fsgn :: "pyfloat \<Rightarrow> real" where
  "fsgn (Fin a) = sgn a"
| "fsgn PInf = 1"
| "fsgn NInf = - 1"
| "fsgn NaN = 0"

definition inf_of_sign :: "real \<Rightarrow> pyfloat" where
  "inf_of_sign s = (if s = 0 then NaN else if 0 < s then PInf else NInf)"

fun fneg :: "pyfloat \<Rightarrow> pyfloat" where
  "fneg (Fin a) = Fin (- a)"
| "fneg PInf = NInf"
| "fneg NInf = PInf"
| "fneg NaN = NaN"

fun fadd :: "pyfloat \<Rightarrow> pyfloat \<Rightarrow> pyfloat" where
  "fadd (Fin a) (Fin b) = Fin (a + b)"
| "fadd NaN _ = NaN"
| "fadd _ NaN = NaN"
| "fadd PInf NInf = NaN"
| "fadd NInf PInf = NaN"
| "fadd PInf _ = PInf"
| "fadd _ PInf = PInf"
| "fadd NInf _ = NInf"
| "fadd _ NInf = NInf"

fun fmul :: "pyfloat \<Rightarrow> pyfloat \<Rightarrow> pyfloat" where
  "fmul (Fin a) (Fin b) = Fin (a * b)"
| "fmul NaN _ = NaN"
| "fmul _ NaN = NaN"
| "fmul x y = inf_of_sign (fsgn x * fsgn y)"

fun fdiv :: "pyfloat \<Rightarrow> pyfloat \<Rightarrow> pyfloat" where
  "fdiv (Fin a) (Fin b) = (if b = 0 then inf_of_sign (sgn a) else Fin (a / b))"
| "fdiv NaN _ = NaN"
| "fdiv _ NaN = NaN"
| "fdiv (Fin a) _ = Fin 0"
| "fdiv x (Fin b) = inf_of_sign (fsgn x * (if b = 0 then 1 else sgn b))"
| "fdiv _ _ = NaN"

instantiation pyfloat :: "{zero, one, plus, minus, uminus, times, inverse}"
begin

definition zero_pyfloat :: pyfloat where "zero_pyfloat = Fin 0"
definition one_pyfloat :: pyfloat where "one_pyfloat = Fin 1"
definition plus_pyfloat :: "pyfloat \<Rightarrow> pyfloat \<Rightarrow> pyfloat" where "plus_pyfloat = fadd"
definition uminus_pyfloat :: "pyfloat \<Rightarrow> pyfloat" where "uminus_pyfloat = fneg"
definition minus_pyfloat :: "pyfloat \<Rightarrow> pyfloat \<Rightarrow> pyfloat" where
  "minus_pyfloat x y = fadd x (fneg y)"
definition times_pyfloat :: "pyfloat \<Rightarrow> pyfloat \<Rightarrow> pyfloat" where "times_pyfloat = fmul"
definition divide_pyfloat :: "pyfloat \<Rightarrow> pyfloat \<Rightarrow> pyfloat" where "divide_pyfloat = fdiv"
definition inverse_pyfloat :: "pyfloat \<Rightarrow> pyfloat" where "inverse_pyfloat x = fdiv (Fin 1) x"

instance ..

end

text \<open>Comparisons: every comparison with NaN is false, also \<open>==\<close>.\<close>

fun feq :: "pyfloat \<Rightarrow> pyfloat \<Rightarrow> bool" where
  "feq NaN _ = False"
| "feq _ NaN = False"
| "feq x y = (x = y)"

fun fless :: "pyfloat \<Rightarrow> pyfloat \<Rightarrow> bool" where
  "fless (Fin a) (Fin b) = (a < b)"
| "fless NaN _ = False"
| "fless _ NaN = False"
| "fless NInf y = (y \<noteq> NInf)"
| "fless x PInf = (x \<noteq> PInf)"
| "fless _ _ = False"

fun fabs :: "pyfloat \<Rightarrow> pyfloat" where
  "fabs (Fin a) = Fin \<bar>a\<bar>"
| "fabs NaN = NaN"
| "fabs _ = PInf"

text \<open>\<open>np.maximum\<close> propagates NaN.\<close>

fun fmaximum :: "pyfloat \<Rightarrow> pyfloat \<Rightarrow> pyfloat" where
  "fmaximum NaN _ = NaN"
| "fmaximum _ NaN = NaN"
| "fmaximum x y = (if fless x y then y else x)"

fun fsqrt :: "pyfloat \<Rightarrow> pyfloat" where
  "fsqrt (Fin a) = (if a < 0 then NaN else Fin (sqrt a))"
| "fsqrt PInf = PInf"
| "fsqrt _ = NaN"

fun fsin :: "pyfloat \<Rightarrow> pyfloat" where
  "fsin (Fin a) = Fin (sin a)"
| "fsin _ = NaN"

fun fcos :: "pyfloat \<Rightarrow> pyfloat" where
  "fcos (Fin a) = Fin (cos a)"
| "fcos _ = NaN"

fun fexp :: "pyfloat \<Rightarrow> pyfloat" where
  "fexp (Fin a) = Fin (exp a)"
| "fexp PInf = PInf"
| "fexp NInf = Fin 0"
| "fexp NaN = NaN"

text \<open>The two-argument arctangent on reals, with \<open>arctan2 0 0 = 0\<close>.\<close>

definition arctan2 :: "real \<Rightarrow> real \<Rightarrow> real" where
  "arctan2 y x =
     (if 0 < x then arctan (y / x)
      else if x < 0 then (if 0 \<le> y then arctan (y / x) + pi else arctan (y / x) - pi)
      else if 0 < y then pi / 2
      else if y < 0 then - (pi / 2)
      else 0)"

fun farctan2 :: "pyfloat \<Rightarrow> pyfloat \<Rightarrow> pyfloat" where
  "farctan2 (Fin y) (Fin x) = Fin (arctan2 y x)"
| "farctan2 NaN _ = NaN"
| "farctan2 _ NaN = NaN"
| "farctan2 (Fin y) PInf = Fin 0"
| "farctan2 (Fin y) NInf = Fin (if y < 0 then - pi else pi)"
| "farctan2 PInf (Fin x) = Fin (pi / 2)"
| "farctan2 NInf (Fin x) = Fin (- (pi / 2))"
| "farctan2 PInf PInf = Fin (pi / 4)"
| "farctan2 NInf PInf = Fin (- (pi / 4))"
| "farctan2 PInf NInf = Fin (3 * pi / 4)"
| "farctan2 NInf NInf = Fin (- (3 * pi / 4))"

text \<open>\<open>math.radians\<close> and the conversion of a Python int to a float.\<close>

definition radians :: "pyfloat \<Rightarrow> pyfloat" where
  "radians x = x * Fin (pi / 180)"

definition float_of_int :: "int \<Rightarrow> pyfloat" where
  "float_of_int i = Fin (of_int i)"

section \<open>Vectors, matrices and quaternions\<close>

text \<open>
  numpy arrays of three floats and of three rows, and the quaternions of the
  numpy-quaternion package. The package is a dependency of the repository, not part
  of it; its operations are written out after its definitions: the squared norm
  \<open>q.norm()\<close>, the Hamilton product, the division \<open>q1 / q2\<close>, the division of a
  scalar \<open>s / q\<close>, the exponential, \<open>from_rotation_vector\<close> and
  \<open>as_rotation_matrix\<close>, which raises on a quaternion of norm zero.
\<close>

type_synonym vec3 = "pyfloat \<times> pyfloat \<times> pyfloat"
type_synonym mat3 = "vec3 \<times> vec3 \<times> vec3"

datatype error = ValueError string | ZeroDivisionError | IndexError

definition np_dot :: "vec3 \<Rightarrow> vec3 \<Rightarrow> pyfloat" where
  "np_dot a b = (case a of (a0, a1, a2) \<Rightarrow> case b of (b0, b1, b2) \<Rightarrow>
     a0 * b0 + a1 * b1 + a2 * b2)"

definition linalg_norm :: "vec3 \<Rightarrow> pyfloat" where
  "linalg_norm v = fsqrt (np_dot v v)"

definition vec_sub :: "vec3 \<Rightarrow> vec3 \<Rightarrow> vec3" where
  "vec_sub a b = (case a of (a0, a1, a2) \<Rightarrow> case b of (b0, b1, b2) \<Rightarrow>
     (a0 - b0, a1 - b1, a2 - b2))"

definition scalar_vec :: "pyfloat \<Rightarrow> vec3 \<Rightarrow> vec3" where
  "scalar_vec s v = (case v of (v0, v1, v2) \<Rightarrow> (s * v0, s * v1, s * v2))"

definition vec_div :: "vec3 \<Rightarrow> pyfloat \<Rightarrow> vec3" where
  "vec_div v s = (case v of (v0, v1, v2) \<Rightarrow> (v0 / s, v1 / s, v2 / s))"

definition scalar_mat :: "pyfloat \<Rightarrow> mat3 \<Rightarrow> mat3" where
  "scalar_mat s m = (case m of (r0, r1, r2) \<Rightarrow>
     (scalar_vec s r0, scalar_vec s r1, scalar_vec s r2))"

definition mat_vec :: "mat3 \<Rightarrow> vec3 \<Rightarrow> vec3" where
  "mat_vec m v = (case m of (r0, r1, r2) \<Rightarrow> (np_dot r0 v, np_dot r1 v, np_dot r2 v))"

definition mat_col :: "mat3 \<Rightarrow> nat \<Rightarrow> vec3" where
  "mat_col m j = (case m of ((a0, a1, a2), (b0, b1, b2), (c0, c1, c2)) \<Rightarrow>
     (if j = 0 then (a0, b0, c0) else if j = 1 then (a1, b1, c1) else (a2, b2, c2)))"

definition mat_mat :: "mat3 \<Rightarrow> mat3 \<Rightarrow> mat3" where
  "mat_mat a b = (case a of (r0, r1, r2) \<Rightarrow>
     ((np_dot r0 (mat_col b 0), np_dot r0 (mat_col b 1), np_dot r0 (mat_col b 2)),
      (np_dot r1 (mat_col b 0), np_dot r1 (mat_col b 1), np_dot r1 (mat_col b 2)),
      (np_dot r2 (mat_col b 0), np_dot r2 (mat_col b 1), np_dot r2 (mat_col b 2))))"

datatype quaternion = Quaternion (qw: pyfloat) (qx: pyfloat) (qy: pyfloat) (qz: pyfloat)

definition quaternion_norm :: "quaternion \<Rightarrow> pyfloat" where
  "quaternion_norm q = qw q * qw q + qx q * qx q + qy q * qy q + qz q * qz q"

definition quaternion_multiply :: "quaternion \<Rightarrow> quaternion \<Rightarrow> quaternion" where
  "quaternion_multiply a b = Quaternion
     (qw a * qw b - qx a * qx b - qy a * qy b - qz a * qz b)
     (qw a * qx b + qx a * qw b + qy a * qz b - qz a * qy b)
     (qw a * qy b - qx a * qz b + qy a * qw b + qz a * qx b)
     (qw a * qz b + qx a * qy b - qy a * qx b + qz a * qw b)"

definition quaternion_divide :: "quaternion \<Rightarrow> quaternion \<Rightarrow> quaternion" where
  "quaternion_divide a b = (let n = quaternion_norm b in Quaternion
     ((qw a * qw b + qx a * qx b + qy a * qy b + qz a * qz b) / n)
     ((- (qw a) * qx b + qx a * qw b - qy a * qz b + qz a * qy b) / n)
     ((- (qw a) * qy b + qx a * qz b + qy a * qw b - qz a * qx b) / n)
     ((- (qw a) * qz b - qx a * qy b + qy a * qx b + qz a * qw b) / n))"

definition quaternion_scalar_divide :: "pyfloat \<Rightarrow> quaternion \<Rightarrow> quaternion" where
  "quaternion_scalar_divide s q = (let n = quaternion_norm q in Quaternion
     ((s * qw q) / n) ((- s * qx q) / n) ((- s * qy q) / n) ((- s * qz q) / n))"

definition QUATERNION_EPS :: pyfloat where
  "QUATERNION_EPS = Fin (1 / 10 ^ 14)"

definition quaternion_exp :: "quaternion \<Rightarrow> quaternion" where
  "quaternion_exp q =
     (let vnorm = fsqrt (qx q * qx q + qy q * qy q + qz q * qz q)
      in if fless QUATERNION_EPS vnorm
         then (let s = fsin vnorm / vnorm; e = fexp (qw q)
               in Quaternion (e * fcos vnorm) (e * s * qx q) (e * s * qy q) (e * s * qz q))
         else Quaternion (fexp (qw q)) (Fin 0) (Fin 0) (Fin 0))"

definition from_rotation_vector :: "vec3 \<Rightarrow> quaternion" where
  "from_rotation_vector rot = (case rot of (x, y, z) \<Rightarrow>
     quaternion_exp (Quaternion (Fin 0) (x / Fin 2) (y / Fin 2) (z / Fin 2)))"

text \<open>The machine epsilon of a double, \<open>np.finfo(float).eps\<close>.\<close>

definition float_eps :: pyfloat where
  "float_eps = Fin (1 / 2 ^ 52)"

definition as_rotation_matrix :: "quaternion \<Rightarrow> error + mat3" where
  "as_rotation_matrix q =
     (let n = quaternion_norm q; w = qw q; x = qx q; y = qy q; z = qz q
      in if feq n (Fin 0) then Inl ZeroDivisionError
         else if fless (fabs (n - Fin 1)) float_eps then Inr
           ((Fin 1 - Fin 2 * (y * y + z * z), Fin 2 * (x * y - z * w), Fin 2 * (x * z + y * w)),
            (Fin 2 * (x * y + z * w), Fin 1 - Fin 2 * (x * x + z * z), Fin 2 * (y * z - x * w)),
            (Fin 2 * (x * z - y * w), Fin 2 * (y * z + x * w), Fin 1 - Fin 2 * (x * x + y * y)))
         else Inr
           ((Fin 1 - Fin 2 * (y * y + z * z) / n, Fin 2 * (x * y - z * w) / n,
             Fin 2 * (x * z + y * w) / n),
            (Fin 2 * (x * y + z * w) / n, Fin 1 - Fin 2 * (x * x + z * z) / n,
             Fin 2 * (y * z - x * w) / n),
            (Fin 2 * (x * z - y * w) / n, Fin 2 * (y * z + x * w) / n,
             Fin 1 - Fin 2 * (x * x + y * y) / n)))"

section \<open>Poses (common/pose.py)\<close>

record GeoPosition =
  lat :: pyfloat
  lon :: pyfloat
  altitude :: pyfloat

record EulerRotation =
  yaw :: pyfloat
  pitch :: pyfloat
  roll :: pyfloat

text \<open>
  The fields \<open>position\<close> and \<open>rotation\<close> of the class \<open>CameraPose\<close>; the second is
  renamed, since \<open>rotation\<close> is also the module's function.
\<close>

record CameraPose =
  pose_position :: GeoPosition
  pose_rotation :: EulerRotation

definition from_degrees :: "pyfloat \<Rightarrow> pyfloat \<Rightarrow> pyfloat \<Rightarrow> EulerRotation" where
  "from_degrees y p r = \<lparr>yaw = radians y, pitch = radians p, roll = radians r\<rparr>"

text \<open>
  \<open>CameraPose.is_complete\<close>: \<open>all(map(lambda value: value is not None and not
  np.isnan(value), [lat, lon]))\<close>. The fields hold floats, so a value is \<open>Some\<close> float
  here and the test for \<open>None\<close> is the test for \<open>Some\<close>.
\<close>

definition is_complete :: "CameraPose \<Rightarrow> bool" where
  "is_complete p =
     list_all (\<lambda>value. value \<noteq> None \<and> \<not> isnan (the value))
       [Some (lat (pose_position p)), Some (lon (pose_position p))]"

text \<open>
  \<open>EulerRotation.from_direction_xyz\<close>. The arrays \<open>xz_normal\<close> and the literal
  \<open>1e-8\<close> are as in the source; \<open>roll\<close> is the literal 0.
\<close>

definition from_direction_xyz :: "vec3 \<Rightarrow> EulerRotation" where
  "from_direction_xyz direction =
     (let unit_direction = vec_div direction (linalg_norm direction);
          xz_normal = (Fin 0, Fin 1, Fin 0);
          xz_projection =
            vec_sub unit_direction (scalar_vec (np_dot unit_direction xz_normal) xz_normal);
          xz_projection_norm = fmaximum (linalg_norm xz_projection) (Fin (1 / 10 ^ 8));
          unit_xz_projection = vec_div xz_projection xz_projection_norm;
          yaw_angle = farctan2 (fst unit_xz_projection) (snd (snd unit_xz_projection));
          pitch_angle = farctan2 (- (fst (snd unit_direction))) xz_projection_norm
      in \<lparr>yaw = yaw_angle, pitch = pitch_angle, roll = Fin 0\<rparr>)"

text \<open>
  \<open>EulerRotation.as_quaternion_xyz\<close>. In Python \<open>*\<close> and \<open>@\<close> have the same
  precedence and associate to the left: \<open>self.pitch * yaw @ v\<close> is
  \<open>(self.pitch * yaw) @ v\<close> and \<open>self.roll * pitch @ yaw @ v\<close> is
  \<open>((self.roll * pitch) @ yaw) @ v\<close>.
\<close>

definition as_quaternion_xyz :: "EulerRotation \<Rightarrow> error + quaternion" where
  "as_quaternion_xyz r =
     (let yaw_quat = from_rotation_vector (scalar_vec (yaw r) (Fin 0, Fin 1, Fin 0))
      in case as_rotation_matrix yaw_quat of
           Inl e \<Rightarrow> Inl e
         | Inr yaw_m \<Rightarrow>
            (let pitch_quat =
                   from_rotation_vector
                     (mat_vec (scalar_mat (pitch r) yaw_m) (Fin 1, Fin 0, Fin 0))
             in case as_rotation_matrix pitch_quat of
                  Inl e \<Rightarrow> Inl e
                | Inr pitch_m \<Rightarrow>
                   (let roll_quat =
                          from_rotation_vector
                            (mat_vec (mat_mat (scalar_mat (roll r) pitch_m) yaw_m)
                               (Fin 0, Fin 0, Fin 1))
                    in Inr (quaternion_multiply (quaternion_multiply roll_quat pitch_quat)
                              yaw_quat))))"

definition as_quaternion_frd :: "EulerRotation \<Rightarrow> quaternion" where
  "as_quaternion_frd r =
     (let cos_roll = fcos (roll r / Fin 2);
          sin_roll = fsin (roll r / Fin 2);
          cos_pitch = fcos (pitch r / Fin 2);
          sin_pitch = fsin (pitch r / Fin 2);
          cos_yaw = fcos (yaw r / Fin 2);
          sin_yaw = fsin (yaw r / Fin 2);
          w = cos_roll * cos_pitch * cos_yaw + sin_roll * sin_pitch * sin_yaw;
          x = sin_roll * cos_pitch * cos_yaw - cos_roll * sin_pitch * sin_yaw;
          y = cos_roll * sin_pitch * cos_yaw + sin_roll * cos_pitch * sin_yaw;
          z = cos_roll * cos_pitch * sin_yaw - sin_roll * sin_pitch * cos_yaw
      in Quaternion w x y z)"

text \<open>
  \<open>rotation\<close> returns a quaternion or, with \<open>as_matrix\<close>, a matrix. An unknown
  \<open>coord_system\<close> raises \<open>ValueError\<close> with the message of the source.
\<close>

datatype rotation_result = AsQuaternion quaternion | AsMatrix mat3

definition rotation ::
  "CameraPose \<Rightarrow> CameraPose \<Rightarrow> string \<Rightarrow> bool \<Rightarrow> error + rotation_result" where
  "rotation ref_pose current_pose coord_system as_matrix =
     (case (if coord_system = ''xyz'' then
              (case as_quaternion_xyz (pose_rotation current_pose) of
                 Inl e \<Rightarrow> Inl e
               | Inr current_quaternion \<Rightarrow>
                  (case as_quaternion_xyz (pose_rotation ref_pose) of
                     Inl e \<Rightarrow> Inl e
                   | Inr ref_quaternion \<Rightarrow> Inr (current_quaternion, ref_quaternion)))
            else if coord_system = ''frd'' then
              Inr (as_quaternion_frd (pose_rotation current_pose),
                   as_quaternion_frd (pose_rotation ref_pose))
            else Inl (ValueError (''Invalid coordinate system: '' @ coord_system)))
      of Inl e \<Rightarrow> Inl e
       | Inr (current_quaternion, ref_quaternion) \<Rightarrow>
          (let rot_quaternion = quaternion_divide current_quaternion ref_quaternion
           in if as_matrix
              then (case as_rotation_matrix rot_quaternion of
                      Inl e \<Rightarrow> Inl e
                    | Inr m \<Rightarrow> Inr (AsMatrix m))
              else Inr (AsQuaternion rot_quaternion)))"

definition earth_to_ned_local_tangent_plane_rotation :: "GeoPosition \<Rightarrow> mat3" where
  "earth_to_ned_local_tangent_plane_rotation origin_position =
     (let phi = radians (lat origin_position); lam = radians (lon origin_position)
      in ((- fsin phi * fcos lam, - fsin phi * fsin lam, fcos phi),
          (- fsin lam, fcos lam, Fin 0),
          (- fcos phi * fcos lam, - fcos phi * fsin lam, - fsin phi)))"

definition frd_translation_to_xyz :: "vec3 \<Rightarrow> vec3" where
  "frd_translation_to_xyz frd_translation_vector =
     (case frd_translation_vector of (forward, right, down) \<Rightarrow> (right, down, forward))"

text \<open>
  The pyproj transformer from WGS84 to geocentric coordinates is outside the
  repository: it is the parameter \<open>wgs84_to_geodetic\<close> of \<open>to_geodetic_xyz\<close> and of
  everything that calls it.
\<close>

type_synonym transformer = "pyfloat \<Rightarrow> pyfloat \<Rightarrow> pyfloat \<Rightarrow> vec3"

definition to_geodetic_xyz :: "transformer \<Rightarrow> GeoPosition \<Rightarrow> vec3" where
  "to_geodetic_xyz wgs84_to_geodetic p = wgs84_to_geodetic (lat p) (lon p) (altitude p)"

definition translation :: "transformer \<Rightarrow> CameraPose \<Rightarrow> CameraPose \<Rightarrow> error + vec3" where
  "translation wgs84_to_geodetic ref_pose current_pose =
     (let ref_geo_xyz = to_geodetic_xyz wgs84_to_geodetic (pose_position ref_pose);
          current_geo_xyz = to_geodetic_xyz wgs84_to_geodetic (pose_position current_pose);
          xyz_translation = vec_sub current_geo_xyz ref_geo_xyz;
          rot_ltp = earth_to_ned_local_tangent_plane_rotation (pose_position ref_pose);
          translation_ned_ltp = mat_vec rot_ltp xyz_translation
      in case as_rotation_matrix
                (quaternion_scalar_divide (Fin 1) (as_quaternion_frd (pose_rotation ref_pose)))
         of Inl e \<Rightarrow> Inl e
          | Inr rot_0 \<Rightarrow> Inr (frd_translation_to_xyz (mat_vec rot_0 translation_ned_ltp)))"

section \<open>Annotations (common/annotations.py)\<close>

datatype LineType = VISIBLE_CABLE | INFERRED_CABLE | NOT_CABLE | VISIBLE_OR_INFERRED

definition from_selector :: "string \<Rightarrow> error + LineType" where
  "from_selector selector =
     (if selector = ''visible'' then Inr VISIBLE_CABLE
      else if selector = ''all'' then Inr VISIBLE_OR_INFERRED
      else Inl (ValueError (''Invalid selector '' @ [CHR 0x27] @ selector @ [CHR 0x27])))"

text \<open>
  A cable line: its points and its type. The field \<open>line\<close> of the class is the shapely
  geometry built from \<open>points\<close> and is left out; the field \<open>type\<close> is \<open>line_type\<close>.
\<close>

record CableLine =
  points :: "pyfloat list list"
  line_type :: LineType

definition is_visible :: "CableLine \<Rightarrow> bool" where
  "is_visible c = (line_type c = VISIBLE_CABLE)"

definition is_inferred :: "CableLine \<Rightarrow> bool" where
  "is_inferred c = (line_type c = INFERRED_CABLE)"

definition is_visible_or_inferred :: "CableLine \<Rightarrow> bool" where
  "is_visible_or_inferred c =
     (line_type c = VISIBLE_CABLE \<or> line_type c = INFERRED_CABLE
      \<or> line_type c = VISIBLE_OR_INFERRED)"

text \<open>
  The fields of \<open>ImageAnnotations\<close> that \<open>cables\<close> and the pose lookup read; the
  exclusion zones and the powerline poles are boxes of the image and are left out.
\<close>

record ImageAnnotations =
  relative_image_path :: string
  cable_lines :: "CableLine list"
  pose :: "CameraPose option"

definition cables :: "ImageAnnotations \<Rightarrow> string \<Rightarrow> error + CableLine list" where
  "cables self selector =
     (if selector = ''visible'' then Inr (filter is_visible (cable_lines self))
      else if selector = ''inferred'' then Inr (filter is_inferred (cable_lines self))
      else if selector = ''all'' then Inr (filter is_visible_or_inferred (cable_lines self))
      else Inl (ValueError (''Unknown cable selector '' @ [CHR 0x27] @ selector @ [CHR 0x27])))"

section \<open>Camera motion velocities (config/utils.py)\<close>

definition DEFAULT_SPEED :: pyfloat where
  "DEFAULT_SPEED = Fin 60"

text \<open>
  A pose file is named by its recording and its timestamp,
  \<open>poses_folder / recording / "<timestamp>_pose.csv"\<close>. The file system gives, for a
  path, \<open>None\<close> when the file does not exist and otherwise the rows that
  \<open>csv.reader\<close> yields, each row a list of strings.
\<close>

type_synonym pose_path = "string \<times> int"
type_synonym csv_rows = "string list list"
type_synonym pose_files = "pose_path \<Rightarrow> csv_rows option"

text \<open>
  Python's built-in \<open>float\<close> on a string is a parameter: \<open>None\<close> where it raises
  \<open>ValueError\<close>. The message of that error quotes the string, here without the
  escapes of \<open>repr\<close>.
\<close>

type_synonym float_parser = "string \<Rightarrow> pyfloat option"

text \<open>
  \<open>float(coordinates_list[k])\<close>: \<open>IndexError\<close> when the row has no field \<open>k\<close>,
  \<open>ValueError\<close> when the field is not a number.
\<close>

definition coordinate :: "float_parser \<Rightarrow> string list \<Rightarrow> nat \<Rightarrow> error + pyfloat" where
  "coordinate float_of_str coordinates_list k =
     (if k < length coordinates_list
      then (case float_of_str (coordinates_list ! k) of
              None \<Rightarrow>
                Inl (ValueError (''could not convert string to float: ''
                       @ [CHR 0x27] @ coordinates_list ! k @ [CHR 0x27]))
            | Some x \<Rightarrow> Inr x)
      else Inl IndexError)"

text \<open>
  \<open>parse_pose\<close>: the first row of the file, \<open>list(reader)[0]\<close>, and its six fields
  converted from left to right; the first failure is the exception raised.
\<close>

definition parse_pose :: "float_parser \<Rightarrow> csv_rows \<Rightarrow> error + CameraPose" where
  "parse_pose float_of_str rows =
     (case rows of
        [] \<Rightarrow> Inl IndexError
      | coordinates_list # _ \<Rightarrow>
         (case coordinate float_of_str coordinates_list 0 of Inl e \<Rightarrow> Inl e | Inr c0 \<Rightarrow>
          case coordinate float_of_str coordinates_list 1 of Inl e \<Rightarrow> Inl e | Inr c1 \<Rightarrow>
          case coordinate float_of_str coordinates_list 2 of Inl e \<Rightarrow> Inl e | Inr c2 \<Rightarrow>
          case coordinate float_of_str coordinates_list 3 of Inl e \<Rightarrow> Inl e | Inr c3 \<Rightarrow>
          case coordinate float_of_str coordinates_list 4 of Inl e \<Rightarrow> Inl e | Inr c4 \<Rightarrow>
          case coordinate float_of_str coordinates_list 5 of Inl e \<Rightarrow> Inl e | Inr c5 \<Rightarrow>
            Inr \<lparr>pose_position = \<lparr>lat = c0, lon = c1, altitude = c2\<rparr>,
                 pose_rotation = from_degrees c3 c4 c5\<rparr>))"

text \<open>
  \<open>pose_filepaths\<close>: the paths of the sorted timestamps. \<open>sorted\<close> returns a new list;
  \<open>timestamps\<close> itself stays as it was passed in.
\<close>

definition pose_filepaths :: "string \<Rightarrow> int list \<Rightarrow> pose_path list" where
  "pose_filepaths recording timestamps =
     map (\<lambda>timestamp. (recording, timestamp)) (sort timestamps)"

text \<open>
  \<open>parse_pose(pose_filepath) if pose_filepath.exists() else None\<close> for one path, and
  the list comprehension over the paths, which stops at the first exception.
\<close>

definition load_pose :: "float_parser \<Rightarrow> pose_files \<Rightarrow> pose_path \<Rightarrow> error + CameraPose option" where
  "load_pose float_of_str files pose_filepath =
     (case files pose_filepath of
        None \<Rightarrow> Inr None
      | Some rows \<Rightarrow>
         (case parse_pose float_of_str rows of
            Inl e \<Rightarrow> Inl e
          | Inr p \<Rightarrow> Inr (Some p)))"

fun load_poses ::
  "float_parser \<Rightarrow> pose_files \<Rightarrow> pose_path list \<Rightarrow> error + CameraPose option list" where
  "load_poses float_of_str files [] = Inr []"
| "load_poses float_of_str files (pose_filepath # rest) =
     (case load_pose float_of_str files pose_filepath of
        Inl e \<Rightarrow> Inl e
      | Inr p \<Rightarrow>
         (case load_poses float_of_str files rest of
            Inl e \<Rightarrow> Inl e
          | Inr ps \<Rightarrow> Inr (p # ps)))"

text \<open>
  \<open>np.diff\<close> on the list as it was passed in. numpy stores the timestamps in a signed
  64-bit array and the subtraction wraps around: \<open>int64\<close> says that an integer fits,
  \<open>wrap_int64\<close> is the value of a difference in that array. A list with a timestamp
  outside the range is not stored as such an array; the statements about the
  differences assume \<open>int64\<close> of every timestamp.
\<close>

definition int64 :: "int \<Rightarrow> bool" where
  "int64 i = (- (2 ^ 63) \<le> i \<and> i < 2 ^ 63)"

definition wrap_int64 :: "int \<Rightarrow> int" where
  "wrap_int64 i = (i + 2 ^ 63) mod 2 ^ 64 - 2 ^ 63"

fun np_diff :: "int list \<Rightarrow> int list" where
  "np_diff (a # b # xs) = wrap_int64 (b - a) # np_diff (b # xs)"
| "np_diff _ = []"

definition time_diff :: "int list \<Rightarrow> pyfloat list" where
  "time_diff timestamps = map (\<lambda>d. float_of_int d * Fin (1 / 10 ^ 9)) (np_diff timestamps)"

text \<open>
  The displacement of one pair of \<open>zip(poses[:-1], poses[1:])\<close>, and the list
  comprehension over the pairs, which stops at the first exception.
\<close>

definition displacement ::
  "transformer \<Rightarrow> CameraPose option \<times> CameraPose option \<Rightarrow> error + pyfloat" where
  "displacement wgs84_to_geodetic pair =
     (case pair of
        (Some start_pose, Some end_pose) \<Rightarrow>
          (case translation wgs84_to_geodetic start_pose end_pose of
             Inl e \<Rightarrow> Inl e
           | Inr t \<Rightarrow> Inr (linalg_norm t))
      | _ \<Rightarrow> Inr (Fin 0))"

fun displacements ::
  "transformer \<Rightarrow> (CameraPose option \<times> CameraPose option) list \<Rightarrow> error + pyfloat list" where
  "displacements wgs84_to_geodetic [] = Inr []"
| "displacements wgs84_to_geodetic (pair # pairs) =
     (case displacement wgs84_to_geodetic pair of
        Inl e \<Rightarrow> Inl e
      | Inr d \<Rightarrow>
         (case displacements wgs84_to_geodetic pairs of
            Inl e \<Rightarrow> Inl e
          | Inr ds \<Rightarrow> Inr (d # ds)))"

text \<open>
  The two masked assignments \<open>v[v == 0] = DEFAULT_SPEED\<close> and
  \<open>v[~np.isfinite(v)] = DEFAULT_SPEED\<close>, in this order.
\<close>

definition substitute_default :: "pyfloat list \<Rightarrow> pyfloat list" where
  "substitute_default vs =
     map (\<lambda>v. if \<not> isfinite v then DEFAULT_SPEED else v)
       (map (\<lambda>v. if feq v (Fin 0) then DEFAULT_SPEED else v) vs)"

text \<open>
  The velocities in km/h before the substitution, from the loaded poses and the
  timestamps. The two arrays divided have the same length, so the division is
  element by element.
\<close>

definition velocities_km_per_h ::
  "transformer \<Rightarrow> CameraPose option list \<Rightarrow> int list \<Rightarrow> error + pyfloat list" where
  "velocities_km_per_h wgs84_to_geodetic poses timestamps =
     (case displacements wgs84_to_geodetic (zip (butlast poses) (tl poses)) of
        Inl e \<Rightarrow> Inl e
      | Inr ds \<Rightarrow>
         (let velocities_m_per_s = map2 (\<lambda>d t. d / t) ds (time_diff timestamps)
          in Inr (map (\<lambda>v. v * Fin (36 / 10)) velocities_m_per_s)))"

definition compute_camera_motion_velocities ::
  "float_parser \<Rightarrow> transformer \<Rightarrow> pose_files \<Rightarrow> string \<Rightarrow> int list \<Rightarrow> error + pyfloat list"
  where
  "compute_camera_motion_velocities float_of_str wgs84_to_geodetic files recording timestamps =
     (if length timestamps = 1 then Inr [DEFAULT_SPEED]
      else case load_poses float_of_str files (pose_filepaths recording timestamps) of
             Inl e \<Rightarrow> Inl e
           | Inr poses \<Rightarrow>
              (case velocities_km_per_h wgs84_to_geodetic poses timestamps of
                 Inl e \<Rightarrow> Inl e
               | Inr raw \<Rightarrow>
                  (case substitute_default raw of
                     [] \<Rightarrow> Inl IndexError
                   | v # vs \<Rightarrow> Inr (v # v # vs))))"

section \<open>Predicates and examples\<close>

text \<open>
  A rotation all of whose angles are finite, and a quaternion of finite components
  whose squared norm is 1.
\<close>

definition unit_quaternion :: "quaternion \<Rightarrow> bool" where
  "unit_quaternion q =
     (isfinite (qw q) \<and> isfinite (qx q) \<and> isfinite (qy q) \<and> isfinite (qz q)
      \<and> quaternion_norm q = Fin 1)"

definition finite_rotation :: "EulerRotation \<Rightarrow> bool" where
  "finite_rotation r = (isfinite (yaw r) \<and> isfinite (pitch r) \<and> isfinite (roll r))"

text \<open>A float that is zero or NaN, and a vector of such floats.\<close>

definition zero_or_nan :: "pyfloat \<Rightarrow> bool" where
  "zero_or_nan x = (x = Fin 0 \<or> x = NaN)"

definition zero_or_nan_vec :: "vec3 \<Rightarrow> bool" where
  "zero_or_nan_vec v = (case v of (a, b, c) \<Rightarrow> zero_or_nan a \<and> zero_or_nan b \<and> zero_or_nan c)"

text \<open>
  The examples: a pose on the equator at longitude 0, at the given altitude, with all
  three angles 0; the value of \<open>float\<close> on the strings the example files hold; and
  pose files for the timestamps 100, 200 and 300 of every recording, at the altitudes
  1, 2 and 3, with no file for any other timestamp.
\<close>

definition pose_at :: "real \<Rightarrow> CameraPose" where
  "pose_at h = \<lparr>pose_position = \<lparr>lat = Fin 0, lon = Fin 0, altitude = Fin h\<rparr>,
               pose_rotation = \<lparr>yaw = Fin 0, pitch = Fin 0, roll = Fin 0\<rparr>\<rparr>"

definition example_float :: float_parser where
  "example_float s =
     (if s = ''0'' then Some (Fin 0)
      else if s = ''1'' then Some (Fin 1)
      else if s = ''2'' then Some (Fin 2)
      else if s = ''3'' then Some (Fin 3)
      else None)"

definition example_files :: pose_files where
  "example_files pose_filepath =
     (if snd pose_filepath = 100 then Some [[''0'', ''0'', ''1'', ''0'', ''0'', ''0'']]
      else if snd pose_filepath = 200 then Some [[''0'', ''0'', ''2'', ''0'', ''0'', ''0'']]
      else if snd pose_filepath = 300 then Some [[''0'', ''0'', ''3'', ''0'', ''0'', ''0'']]
      else None)"

section \<open>Properties\<close>

subsection \<open>Arithmetic on finite values\<close>

lemma Fin_plus [simp]: "Fin a + Fin b = Fin (a + b)"
  by (simp add: plus_pyfloat_def)

lemma Fin_minus [simp]: "Fin a - Fin b = Fin (a - b)"
  by (simp add: minus_pyfloat_def)

lemma Fin_times [simp]: "Fin a * Fin b = Fin (a * b)"
  by (simp add: times_pyfloat_def)

lemma Fin_uminus [simp]: "- Fin a = Fin (- a)"
  by (simp add: uminus_pyfloat_def)

lemma Fin_divide [simp]: "b \<noteq> 0 \<Longrightarrow> Fin a / Fin b = Fin (a / b)"
  by (simp add: divide_pyfloat_def)

lemma NaN_plus [simp]: "NaN + x = NaN" "x + NaN = NaN"
  by (cases x; simp add: plus_pyfloat_def)+

lemma NaN_minus [simp]: "NaN - x = NaN" "x - NaN = NaN"
  by (cases x; simp add: minus_pyfloat_def)+

lemma NaN_times [simp]: "NaN * x = NaN" "x * NaN = NaN"
  by (cases x; simp add: times_pyfloat_def)+

lemma NaN_divide [simp]: "NaN / x = NaN" "x / NaN = NaN"
  by (cases x; simp add: divide_pyfloat_def)+

lemma NaN_uminus [simp]: "- NaN = NaN"
  by (simp add: uminus_pyfloat_def)

lemma isfinite_Fin: "isfinite x \<Longrightarrow> \<exists>r. x = Fin r"
  by (cases x) simp_all

lemma feq_Fin [simp]: "feq (Fin a) (Fin b) = (a = b)"
  by simp

lemma from_rotation_vector_zero:
  "from_rotation_vector (Fin 0, Fin 0, Fin 0) = Quaternion (Fin 1) (Fin 0) (Fin 0) (Fin 0)"
  by (simp add: from_rotation_vector_def quaternion_exp_def QUATERNION_EPS_def Let_def)

lemma as_rotation_matrix_one:
  "as_rotation_matrix (Quaternion (Fin 1) (Fin 0) (Fin 0) (Fin 0))
     = Inr ((Fin 1, Fin 0, Fin 0), (Fin 0, Fin 1, Fin 0), (Fin 0, Fin 0, Fin 1))"
  by (simp add: as_rotation_matrix_def quaternion_norm_def float_eps_def Let_def)

lemma unit_quaternion_Fin:
  "unit_quaternion q \<Longrightarrow>
     \<exists>w x y z. q = Quaternion (Fin w) (Fin x) (Fin y) (Fin z) \<and> w * w + x * x + y * y + z * z = 1"
  by (cases q) (auto simp: unit_quaternion_def quaternion_norm_def dest!: isfinite_Fin)

lemma as_rotation_matrix_unit:
  "unit_quaternion q \<Longrightarrow> \<exists>m. as_rotation_matrix q = Inr m"
  by (drule unit_quaternion_Fin)
     (auto simp: as_rotation_matrix_def quaternion_norm_def float_eps_def Let_def)

lemma frd_unit_real:
  fixes cr sr cp sp cy sy :: real
  assumes "cr * cr + sr * sr = 1" "cp * cp + sp * sp = 1" "cy * cy + sy * sy = 1"
  shows "(cr * cp * cy + sr * sp * sy) * (cr * cp * cy + sr * sp * sy)
       + (sr * cp * cy - cr * sp * sy) * (sr * cp * cy - cr * sp * sy)
       + (cr * sp * cy + sr * cp * sy) * (cr * sp * cy + sr * cp * sy)
       + (cr * cp * sy - sr * sp * cy) * (cr * cp * sy - sr * sp * cy) = 1"
proof -
  have "(cr * cp * cy + sr * sp * sy) * (cr * cp * cy + sr * sp * sy)
       + (sr * cp * cy - cr * sp * sy) * (sr * cp * cy - cr * sp * sy)
       + (cr * sp * cy + sr * cp * sy) * (cr * sp * cy + sr * cp * sy)
       + (cr * cp * sy - sr * sp * cy) * (cr * cp * sy - sr * sp * cy)
       = (cr * cr + sr * sr) * (cp * cp + sp * sp) * (cy * cy + sy * sy)"
    by (simp add: algebra_simps)
  then show ?thesis by (simp only: assms mult_1)
qed

lemma as_quaternion_frd_unit:
  assumes "finite_rotation r"
  shows "unit_quaternion (as_quaternion_frd r)"
proof -
  obtain y p ro where r: "yaw r = Fin y" "pitch r = Fin p" "roll r = Fin ro"
    using assms by (auto simp: finite_rotation_def dest!: isfinite_Fin)
  show ?thesis
    unfolding as_quaternion_frd_def Let_def r
    by (simp add: unit_quaternion_def quaternion_norm_def frd_unit_real sin_cos_squared_add3)
qed

lemma half_not_finite: "\<not> isfinite x \<Longrightarrow> fsin (x / Fin 2) = NaN \<and> fcos (x / Fin 2) = NaN"
  by (cases x) (simp_all add: divide_pyfloat_def inf_of_sign_def)

lemma as_quaternion_frd_NaN:
  assumes "\<not> finite_rotation r"
  shows "as_quaternion_frd r = Quaternion NaN NaN NaN NaN"
proof -
  from assms consider "\<not> isfinite (yaw r)" | "\<not> isfinite (pitch r)" | "\<not> isfinite (roll r)"
    by (auto simp: finite_rotation_def)
  then show ?thesis
  proof cases
    case 1
    then show ?thesis
      by (simp add: as_quaternion_frd_def Let_def half_not_finite)
  next
    case 2
    then show ?thesis
      by (simp add: as_quaternion_frd_def Let_def half_not_finite)
  next
    case 3
    then show ?thesis
      by (simp add: as_quaternion_frd_def Let_def half_not_finite)
  qed
qed

lemma quaternion_scalar_divide_unit:
  "unit_quaternion q \<Longrightarrow> unit_quaternion (quaternion_scalar_divide (Fin 1) q)"
  by (drule unit_quaternion_Fin)
     (auto simp: quaternion_scalar_divide_def unit_quaternion_def quaternion_norm_def Let_def)

lemma reference_matrix_total:
  "\<exists>m. as_rotation_matrix (quaternion_scalar_divide (Fin 1) (as_quaternion_frd r)) = Inr m"
proof (cases "finite_rotation r")
  case True
  then show ?thesis
    using as_quaternion_frd_unit quaternion_scalar_divide_unit as_rotation_matrix_unit by blast
next
  case False
  then show ?thesis
    by (simp add: as_quaternion_frd_NaN quaternion_scalar_divide_def quaternion_norm_def
        as_rotation_matrix_def Let_def)
qed

lemma translation_total:
  "\<exists>t. translation wgs84_to_geodetic ref_pose current_pose = Inr t"
proof -
  obtain m where
    "as_rotation_matrix
       (quaternion_scalar_divide (Fin 1) (as_quaternion_frd (pose_rotation ref_pose))) = Inr m"
    using reference_matrix_total by blast
  then have "translation wgs84_to_geodetic ref_pose current_pose
      = Inr (frd_translation_to_xyz (mat_vec m
          (mat_vec (earth_to_ned_local_tangent_plane_rotation (pose_position ref_pose))
             (vec_sub (to_geodetic_xyz wgs84_to_geodetic (pose_position current_pose))
                (to_geodetic_xyz wgs84_to_geodetic (pose_position ref_pose))))))"
    by (simp add: translation_def Let_def)
  then show ?thesis by (rule exI)
qed

subsection \<open>Loading the poses\<close>

lemma load_pose_missing:
  "(load_pose float_of_str files pose_filepath = Inr None) = (files pose_filepath = None)"
  by (auto simp: load_pose_def split: option.splits sum.splits)

lemma load_poses_total:
  assumes "\<forall>pose_filepath \<in> set paths. \<forall>rows. files pose_filepath = Some rows \<longrightarrow>
             (\<exists>p. parse_pose float_of_str rows = Inr p)"
  shows "\<exists>poses. load_poses float_of_str files paths = Inr poses
           \<and> length poses = length paths
           \<and> (\<forall>i < length paths. load_pose float_of_str files (paths ! i) = Inr (poses ! i))"
  using assms
proof (induction paths)
  case Nil
  show ?case by simp
next
  case (Cons path paths)
  have "\<exists>p. load_pose float_of_str files path = Inr p"
  proof (cases "files path")
    case None
    then show ?thesis by (simp add: load_pose_def)
  next
    case (Some rows)
    then obtain q where "parse_pose float_of_str rows = Inr q"
      using Cons.prems by auto
    then show ?thesis by (simp add: load_pose_def Some)
  qed
  then obtain p where p: "load_pose float_of_str files path = Inr p" by blast
  obtain ps where ps: "load_poses float_of_str files paths = Inr ps"
    "length ps = length paths"
    "\<forall>i < length paths. load_pose float_of_str files (paths ! i) = Inr (ps ! i)"
    using Cons.IH Cons.prems by auto
  have "load_poses float_of_str files (path # paths) = Inr (p # ps)"
    by (simp add: p ps(1))
  moreover have "\<forall>i < length (path # paths).
      load_pose float_of_str files ((path # paths) ! i) = Inr ((p # ps) ! i)"
    using p ps(3) by (auto simp: nth_Cons split: nat.splits)
  ultimately show ?case using ps(2) by simp
qed

lemma load_poses_error:
  "load_pose float_of_str files pose_filepath = Inl e \<Longrightarrow>
     load_poses float_of_str files (pose_filepath # rest) = Inl e"
  by simp

lemma pose_filepaths_length [simp]:
  "length (pose_filepaths recording timestamps) = length timestamps"
  by (simp add: pose_filepaths_def)

lemma pose_filepaths_nth:
  "i < length timestamps \<Longrightarrow>
     pose_filepaths recording timestamps ! i = (recording, sort timestamps ! i)"
  by (simp add: pose_filepaths_def)

lemma pose_filepaths_set:
  "set (pose_filepaths recording timestamps) = (\<lambda>t. (recording, t)) ` set timestamps"
  by (simp add: pose_filepaths_def)

lemma parse_example_files:
  "example_files pose_filepath = Some rows \<Longrightarrow>
     \<exists>p. parse_pose example_float rows = Inr p"
  by (auto simp: example_files_def parse_pose_def coordinate_def example_float_def
      split: if_splits)

lemma load_example_poses:
  "load_pose example_float example_files (recording, 100) = Inr (Some (pose_at 1))"
  "load_pose example_float example_files (recording, 200) = Inr (Some (pose_at 2))"
  "load_pose example_float example_files (recording, 300) = Inr (Some (pose_at 3))"
  "load_pose example_float example_files (recording, 250) = Inr None"
  "load_pose example_float example_files (recording, 400) = Inr None"
  by (simp_all add: load_pose_def example_files_def parse_pose_def coordinate_def
      example_float_def from_degrees_def radians_def pose_at_def)

lemma malformed_pose_file_raises:
  "compute_camera_motion_velocities example_float wgs84_to_geodetic
     (\<lambda>pose_filepath. Some [[''0'', ''0'', ''1'']]) recording [100, 200] = Inl IndexError"
  by (simp add: compute_camera_motion_velocities_def pose_filepaths_def load_pose_def
      parse_pose_def coordinate_def example_float_def)

subsection \<open>The velocity arrays\<close>

lemma wrap_int64_zero [simp]: "wrap_int64 0 = 0"
  by (simp add: wrap_int64_def)

lemma length_np_diff: "length (np_diff ts) = length ts - 1"
  by (induction ts rule: np_diff.induct) simp_all

lemma np_diff_nth:
  "Suc i < length ts \<Longrightarrow> np_diff ts ! i = wrap_int64 (ts ! Suc i - ts ! i)"
proof (induction ts arbitrary: i rule: np_diff.induct)
  case (1 a b xs)
  then show ?case by (cases i) simp_all
qed simp_all

lemma displacement_total: "\<exists>d. displacement wgs84_to_geodetic pair = Inr d"
proof (cases pair)
  case (Pair s e)
  show ?thesis
  proof (cases s)
    case None
    then show ?thesis by (simp add: Pair displacement_def)
  next
    case (Some sp)
    note s = this
    show ?thesis
    proof (cases e)
      case None
      then show ?thesis by (simp add: Pair s displacement_def)
    next
      case (Some ep)
      obtain t where "translation wgs84_to_geodetic sp ep = Inr t"
        using translation_total by blast
      then show ?thesis by (simp add: Pair s Some displacement_def)
    qed
  qed
qed

lemma displacement_missing:
  "s = None \<or> e = None \<Longrightarrow> displacement wgs84_to_geodetic (s, e) = Inr (Fin 0)"
  by (auto simp: displacement_def split: option.splits)

lemma displacements_total:
  "\<exists>ds. displacements wgs84_to_geodetic pairs = Inr ds \<and> length ds = length pairs
        \<and> (\<forall>i < length pairs. displacement wgs84_to_geodetic (pairs ! i) = Inr (ds ! i))"
proof (induction pairs)
  case Nil
  show ?case by simp
next
  case (Cons pair pairs)
  obtain d where d: "displacement wgs84_to_geodetic pair = Inr d"
    using displacement_total by blast
  obtain ds where ds: "displacements wgs84_to_geodetic pairs = Inr ds"
    "length ds = length pairs"
    "\<forall>i < length pairs. displacement wgs84_to_geodetic (pairs ! i) = Inr (ds ! i)"
    using Cons.IH by blast
  have "displacements wgs84_to_geodetic (pair # pairs) = Inr (d # ds)"
    by (simp add: d ds(1))
  moreover have "\<forall>i < length (pair # pairs).
      displacement wgs84_to_geodetic ((pair # pairs) ! i) = Inr ((d # ds) ! i)"
    using d ds(3) by (auto simp: nth_Cons split: nat.splits)
  ultimately show ?case using ds(2) by simp
qed

lemma zip_butlast_tl_nth:
  "Suc i < length xs \<Longrightarrow> zip (butlast xs) (tl xs) ! i = (xs ! i, xs ! Suc i)"
  by (simp add: nth_butlast nth_tl)

lemma velocities_km_per_h_total:
  assumes lp: "length poses = length timestamps"
  shows "\<exists>raw. velocities_km_per_h wgs84_to_geodetic poses timestamps = Inr raw
     \<and> length raw = length timestamps - 1
     \<and> (\<forall>i. Suc i < length timestamps \<longrightarrow>
          (\<exists>d. displacement wgs84_to_geodetic (poses ! i, poses ! Suc i) = Inr d
             \<and> raw ! i
                 = d / (float_of_int (wrap_int64 (timestamps ! Suc i - timestamps ! i))
                        * Fin (1 / 10 ^ 9))
                   * Fin (36 / 10)))"
proof -
  obtain ds where ds: "displacements wgs84_to_geodetic (zip (butlast poses) (tl poses)) = Inr ds"
    "length ds = length (zip (butlast poses) (tl poses))"
    "\<forall>i < length (zip (butlast poses) (tl poses)).
       displacement wgs84_to_geodetic (zip (butlast poses) (tl poses) ! i) = Inr (ds ! i)"
    using displacements_total by blast
  have lds: "length ds = length timestamps - 1"
    using ds(2) lp by simp
  define raw where
    "raw = map (\<lambda>v. v * Fin (36 / 10)) (map2 (\<lambda>d t. d / t) ds (time_diff timestamps))"
  have v: "velocities_km_per_h wgs84_to_geodetic poses timestamps = Inr raw"
    by (simp add: velocities_km_per_h_def Let_def ds(1) raw_def)
  have lr: "length raw = length timestamps - 1"
    by (simp add: raw_def lds time_diff_def length_np_diff)
  have nth: "\<exists>d. displacement wgs84_to_geodetic (poses ! i, poses ! Suc i) = Inr d
             \<and> raw ! i
                 = d / (float_of_int (wrap_int64 (timestamps ! Suc i - timestamps ! i))
                        * Fin (1 / 10 ^ 9))
                   * Fin (36 / 10)"
    if i: "Suc i < length timestamps" for i
  proof -
    have il: "i < length timestamps - 1" using i by simp
    have "Suc i < length poses" using i lp by simp
    then have z: "zip (butlast poses) (tl poses) ! i = (poses ! i, poses ! Suc i)"
      by (rule zip_butlast_tl_nth)
    have "i < length (zip (butlast poses) (tl poses))"
      using il lp by simp
    then have "displacement wgs84_to_geodetic (zip (butlast poses) (tl poses) ! i)
        = Inr (ds ! i)"
      using ds(3) by blast
    then have d: "displacement wgs84_to_geodetic (poses ! i, poses ! Suc i) = Inr (ds ! i)"
      by (simp only: z)
    have "raw ! i = ds ! i / (time_diff timestamps ! i) * Fin (36 / 10)"
      using il lds by (simp add: raw_def time_diff_def length_np_diff)
    then have "raw ! i
        = ds ! i / (float_of_int (wrap_int64 (timestamps ! Suc i - timestamps ! i))
                    * Fin (1 / 10 ^ 9))
          * Fin (36 / 10)"
      using il i by (simp add: time_diff_def length_np_diff np_diff_nth)
    with d show ?thesis by blast
  qed
  show ?thesis
    using v lr nth by blast
qed

lemma substitute_default_length [simp]: "length (substitute_default vs) = length vs"
  by (simp add: substitute_default_def)

lemma substitute_default_nth:
  "i < length vs \<Longrightarrow>
     substitute_default vs ! i
       = (if feq (vs ! i) (Fin 0) \<or> \<not> isfinite (vs ! i) then Fin 60 else vs ! i)"
  by (simp add: substitute_default_def DEFAULT_SPEED_def)

lemma substitute_default_elem:
  "v \<in> set (substitute_default vs) \<Longrightarrow> isfinite v \<and> v \<noteq> Fin 0"
proof -
  assume "v \<in> set (substitute_default vs)"
  then obtain i where i: "i < length vs" "v = substitute_default vs ! i"
    by (metis in_set_conv_nth substitute_default_length)
  show ?thesis
    unfolding i(2) substitute_default_nth [OF i(1)]
    by (cases "vs ! i") simp_all
qed

lemma divide_by_zero_not_finite: "\<not> isfinite (d / Fin 0 * Fin c)"
  by (cases d) (simp_all add: divide_pyfloat_def times_pyfloat_def inf_of_sign_def)

lemma zero_displacement_velocity:
  "feq (Fin 0 / Fin t * Fin c) (Fin 0) \<or> \<not> isfinite (Fin 0 / Fin t * Fin c)"
  by (cases "t = 0") (simp_all add: divide_pyfloat_def times_pyfloat_def inf_of_sign_def)

lemma minus_self_zero_or_nan: "zero_or_nan (x - x)"
  by (cases x) (simp_all add: zero_or_nan_def minus_pyfloat_def)

lemma times_zero_or_nan: "zero_or_nan y \<Longrightarrow> zero_or_nan (x * y)"
  by (cases x) (auto simp: zero_or_nan_def times_pyfloat_def inf_of_sign_def)

lemma plus_zero_or_nan: "zero_or_nan x \<Longrightarrow> zero_or_nan y \<Longrightarrow> zero_or_nan (x + y)"
  by (auto simp: zero_or_nan_def)

lemma np_dot_zero_or_nan: "zero_or_nan_vec v \<Longrightarrow> zero_or_nan (np_dot r v)"
  by (cases r, cases v)
     (simp add: np_dot_def zero_or_nan_vec_def plus_zero_or_nan times_zero_or_nan)

lemma mat_vec_zero_or_nan: "zero_or_nan_vec v \<Longrightarrow> zero_or_nan_vec (mat_vec m v)"
  by (cases m) (simp add: mat_vec_def zero_or_nan_vec_def np_dot_zero_or_nan)

lemma vec_sub_self_zero_or_nan: "zero_or_nan_vec (vec_sub v v)"
  by (cases v) (simp add: vec_sub_def zero_or_nan_vec_def minus_self_zero_or_nan)

lemma linalg_norm_zero_or_nan: "zero_or_nan_vec v \<Longrightarrow> zero_or_nan (linalg_norm v)"
proof -
  assume v: "zero_or_nan_vec v"
  then have "zero_or_nan (np_dot v v)" by (rule np_dot_zero_or_nan)
  then show ?thesis by (auto simp: linalg_norm_def zero_or_nan_def)
qed

lemma displacement_same_pose:
  "displacement wgs84_to_geodetic (Some p, Some p) = Inr d \<Longrightarrow> zero_or_nan d"
proof -
  assume d: "displacement wgs84_to_geodetic (Some p, Some p) = Inr d"
  obtain m where m:
    "as_rotation_matrix
       (quaternion_scalar_divide (Fin 1) (as_quaternion_frd (pose_rotation p))) = Inr m"
    using reference_matrix_total by blast
  define t where "t = frd_translation_to_xyz (mat_vec m
          (mat_vec (earth_to_ned_local_tangent_plane_rotation (pose_position p))
             (vec_sub (to_geodetic_xyz wgs84_to_geodetic (pose_position p))
                (to_geodetic_xyz wgs84_to_geodetic (pose_position p)))))"
  have tr: "translation wgs84_to_geodetic p p = Inr t"
    by (simp add: translation_def Let_def m t_def)
  have "zero_or_nan_vec t"
    unfolding t_def
    using mat_vec_zero_or_nan [OF mat_vec_zero_or_nan [OF vec_sub_self_zero_or_nan], of m
        "earth_to_ned_local_tangent_plane_rotation (pose_position p)"
        "to_geodetic_xyz wgs84_to_geodetic (pose_position p)"]
    by (auto simp: frd_translation_to_xyz_def zero_or_nan_vec_def split: prod.splits)
  then have "zero_or_nan (linalg_norm t)" by (rule linalg_norm_zero_or_nan)
  then show ?thesis using d by (simp add: displacement_def tr)
qed

lemma zero_or_nan_velocity:
  "zero_or_nan d \<Longrightarrow> feq (d / Fin t * Fin c) (Fin 0) \<or> \<not> isfinite (d / Fin t * Fin c)"
  using zero_displacement_velocity [of t c] by (auto simp: zero_or_nan_def)

lemma translation_pose_at:
  "translation (\<lambda>la lo al. (la, lo, al)) (pose_at a) (pose_at b)
     = Inr (Fin 0, Fin 0, Fin (b - a))"
proof -
  have q: "quaternion_scalar_divide (Fin 1)
             (as_quaternion_frd \<lparr>yaw = Fin 0, pitch = Fin 0, roll = Fin 0\<rparr>)
     = Quaternion (Fin 1) (Fin 0) (Fin 0) (Fin 0)"
    by (simp add: as_quaternion_frd_def quaternion_scalar_divide_def quaternion_norm_def
        Let_def)
  show ?thesis
    by (simp add: translation_def pose_at_def Let_def q as_rotation_matrix_one
        to_geodetic_xyz_def vec_sub_def earth_to_ned_local_tangent_plane_rotation_def
        radians_def mat_vec_def np_dot_def frd_translation_to_xyz_def)
qed

subsection \<open>The claims\<close>

text \<open>
  C9: \<open>CameraPose.is_complete\<close> is true exactly when neither the latitude nor the
  longitude of the position is NaN; the altitude and the three rotation angles are not
  examined, so replacing them by any values, NaN included, leaves the answer unchanged.
\<close>

theorem is_complete_lat_lon_only:
  "is_complete p = (lat (pose_position p) \<noteq> NaN \<and> lon (pose_position p) \<noteq> NaN)
   \<and> is_complete (p\<lparr>pose_position := (pose_position p)\<lparr>altitude := a\<rparr>, pose_rotation := r\<rparr>)
       = is_complete p
   \<and> is_complete \<lparr>pose_position = \<lparr>lat = Fin x, lon = Fin y, altitude = NaN\<rparr>,
                   pose_rotation = \<lparr>yaw = NaN, pitch = NaN, roll = NaN\<rparr>\<rparr>"
proof -
  have nan: "\<And>v. isnan v = (v = NaN)"
    by (case_tac v) simp_all
  show ?thesis
    by (simp add: is_complete_def nan)
qed

text \<open>
  C6: for a list of one timestamp, whatever the timestamp, the recording and the pose
  files, \<open>compute_camera_motion_velocities\<close> returns the one-element list of the
  default speed 60; so it does for \<open>("rec", [100])\<close>.
\<close>

theorem single_timestamp_default_speed:
  "compute_camera_motion_velocities float_of_str wgs84_to_geodetic files recording [t] = Inr [Fin 60]
   \<and> compute_camera_motion_velocities float_of_str wgs84_to_geodetic files ''rec'' [100] = Inr [Fin 60]"
  by (simp add: compute_camera_motion_velocities_def DEFAULT_SPEED_def)

text \<open>
  C10: for the empty list of timestamps no list is returned: the velocity array is
  empty and reading its first element raises \<open>IndexError\<close>.
\<close>

theorem empty_timestamps_raise:
  "compute_camera_motion_velocities float_of_str wgs84_to_geodetic files recording [] = Inl IndexError"
  by (simp add: compute_camera_motion_velocities_def pose_filepaths_def
      velocities_km_per_h_def time_diff_def substitute_default_def)

text \<open>
  C4: a selector string that is none of the recognised tags makes the operation fail
  with a \<open>ValueError\<close> whose message quotes the string, and no default is taken:
  \<open>rotation\<close> for a \<open>coord_system\<close> other than "xyz" and "frd",
  \<open>ImageAnnotations.cables\<close> for a selector other than "visible", "inferred" and
  "all", \<open>LineType.from_selector\<close> for a selector other than "visible" and "all".
\<close>

theorem unknown_selector_raises:
  "(coord_system \<noteq> ''xyz'' \<and> coord_system \<noteq> ''frd'' \<longrightarrow>
      rotation ref_pose current_pose coord_system as_matrix
        = Inl (ValueError (''Invalid coordinate system: '' @ coord_system)))
   \<and> (selector \<noteq> ''visible'' \<and> selector \<noteq> ''inferred'' \<and> selector \<noteq> ''all'' \<longrightarrow>
      cables annotations selector
        = Inl (ValueError (''Unknown cable selector '' @ [CHR 0x27] @ selector @ [CHR 0x27])))
   \<and> (selector' \<noteq> ''visible'' \<and> selector' \<noteq> ''all'' \<longrightarrow>
      from_selector selector'
        = Inl (ValueError (''Invalid selector '' @ [CHR 0x27] @ selector' @ [CHR 0x27])))"
  by (simp add: rotation_def cables_def from_selector_def)

theorem unknown_selector_raises_witness:
  "''ned'' \<noteq> ''xyz'' \<and> ''ned'' \<noteq> ''frd''
   \<and> rotation
         \<lparr>pose_position = \<lparr>lat = Fin 46.52, lon = Fin 6.565, altitude = Fin 500\<rparr>,
           pose_rotation = \<lparr>yaw = Fin 0, pitch = Fin 0, roll = Fin 0\<rparr>\<rparr>
         \<lparr>pose_position = \<lparr>lat = Fin 46.521, lon = Fin 6.565, altitude = Fin 500\<rparr>,
           pose_rotation = \<lparr>yaw = Fin 0, pitch = Fin 0, roll = Fin 0\<rparr>\<rparr>
         ''ned'' False
        = Inl (ValueError ''Invalid coordinate system: ned'')
   \<and> ''hidden'' \<noteq> ''visible'' \<and> ''hidden'' \<noteq> ''inferred'' \<and> ''hidden'' \<noteq> ''all''
   \<and> cables
         \<lparr>relative_image_path = ''rec/100.png'',
           cable_lines = [\<lparr>points = [[Fin 0, Fin 0], [Fin 1, Fin 1]], line_type = VISIBLE_CABLE\<rparr>],
           pose = None\<rparr>
         ''hidden''
        = Inl (ValueError (''Unknown cable selector '' @ [CHR 0x27] @ ''hidden'' @ [CHR 0x27]))
   \<and> ''inferred'' \<noteq> ''visible'' \<and> ''inferred'' \<noteq> ''all''
   \<and> from_selector ''inferred''
        = Inl (ValueError (''Invalid selector '' @ [CHR 0x27] @ ''inferred'' @ [CHR 0x27]))"
  using unknown_selector_raises
    [of "''ned''"
        "\<lparr>pose_position = \<lparr>lat = Fin 46.52, lon = Fin 6.565, altitude = Fin 500\<rparr>,
           pose_rotation = \<lparr>yaw = Fin 0, pitch = Fin 0, roll = Fin 0\<rparr>\<rparr>"
        "\<lparr>pose_position = \<lparr>lat = Fin 46.521, lon = Fin 6.565, altitude = Fin 500\<rparr>,
           pose_rotation = \<lparr>yaw = Fin 0, pitch = Fin 0, roll = Fin 0\<rparr>\<rparr>"
        False "''hidden''"
        "\<lparr>relative_image_path = ''rec/100.png'',
           cable_lines = [\<lparr>points = [[Fin 0, Fin 0], [Fin 1, Fin 1]], line_type = VISIBLE_CABLE\<rparr>],
           pose = None\<rparr>"
        "''inferred''"]
  by simp

text \<open>
  C7: the rotation built by \<open>from_degrees(0, 0, 0)\<close> gives the identity quaternion
  (1, 0, 0, 0) under both conventions; \<open>as_quaternion_xyz\<close> raises nothing on the way.
\<close>

theorem zero_rotation_identity_quaternion:
  "as_quaternion_xyz (from_degrees (Fin 0) (Fin 0) (Fin 0))
     = Inr (Quaternion (Fin 1) (Fin 0) (Fin 0) (Fin 0))
   \<and> as_quaternion_frd (from_degrees (Fin 0) (Fin 0) (Fin 0))
     = Quaternion (Fin 1) (Fin 0) (Fin 0) (Fin 0)"
proof -
  have y: "scalar_vec (Fin 0) (Fin 0, Fin 1, Fin 0) = (Fin 0, Fin 0, Fin 0)"
    by (simp add: scalar_vec_def)
  have p: "mat_vec (scalar_mat (Fin 0)
              ((Fin 1, Fin 0, Fin 0), (Fin 0, Fin 1, Fin 0), (Fin 0, Fin 0, Fin 1)))
             (Fin 1, Fin 0, Fin 0) = (Fin 0, Fin 0, Fin 0)"
    by (simp add: scalar_mat_def scalar_vec_def mat_vec_def np_dot_def)
  have r: "mat_vec (mat_mat (scalar_mat (Fin 0)
                ((Fin 1, Fin 0, Fin 0), (Fin 0, Fin 1, Fin 0), (Fin 0, Fin 0, Fin 1)))
                ((Fin 1, Fin 0, Fin 0), (Fin 0, Fin 1, Fin 0), (Fin 0, Fin 0, Fin 1)))
             (Fin 0, Fin 0, Fin 1) = (Fin 0, Fin 0, Fin 0)"
    by (simp add: scalar_mat_def scalar_vec_def mat_vec_def mat_mat_def mat_col_def np_dot_def)
  have m: "quaternion_multiply (Quaternion (Fin 1) (Fin 0) (Fin 0) (Fin 0))
             (Quaternion (Fin 1) (Fin 0) (Fin 0) (Fin 0))
     = Quaternion (Fin 1) (Fin 0) (Fin 0) (Fin 0)"
    by (simp add: quaternion_multiply_def)
  have xyz: "as_quaternion_xyz (from_degrees (Fin 0) (Fin 0) (Fin 0))
     = Inr (Quaternion (Fin 1) (Fin 0) (Fin 0) (Fin 0))"
    by (simp add: as_quaternion_xyz_def from_degrees_def radians_def Let_def y
        from_rotation_vector_zero as_rotation_matrix_one p r m)
  have frd: "as_quaternion_frd (from_degrees (Fin 0) (Fin 0) (Fin 0))
     = Quaternion (Fin 1) (Fin 0) (Fin 0) (Fin 0)"
    by (simp add: as_quaternion_frd_def from_degrees_def radians_def Let_def)
  from xyz frd show ?thesis by (rule conjI)
qed

text \<open>
  C8: \<open>from_direction_xyz\<close> returns roll 0 for every direction, the nonzero ones
  among them, and for the direction (0, 0, 1) it returns yaw 0, pitch 0 and roll 0.
\<close>

theorem from_direction_roll_zero:
  "roll (from_direction_xyz direction) = Fin 0
   \<and> from_direction_xyz (Fin 0, Fin 0, Fin 1) = \<lparr>yaw = Fin 0, pitch = Fin 0, roll = Fin 0\<rparr>"
  by (simp add: from_direction_xyz_def vec_div_def linalg_norm_def np_dot_def vec_sub_def
      scalar_vec_def arctan2_def Let_def)

text \<open>
  C5: for two or more timestamps, each fitting in 64 bits, with pose files that parse
  where they exist, the function returns a list as long as the input: the velocities
  after substitution, one per consecutive pair, with the first of them repeated in
  front. No exception is raised on the way.
\<close>

theorem velocities_output_alignment:
  assumes "2 \<le> length timestamps"
    and "\<forall>t \<in> set timestamps. int64 t"
    and "\<forall>t \<in> set timestamps. \<forall>rows. files (recording, t) = Some rows \<longrightarrow>
           (\<exists>p. parse_pose float_of_str rows = Inr p)"
  shows "\<exists>poses raw.
           load_poses float_of_str files (pose_filepaths recording timestamps) = Inr poses
           \<and> velocities_km_per_h wgs84_to_geodetic poses timestamps = Inr raw
           \<and> length (substitute_default raw) = length timestamps - 1
           \<and> compute_camera_motion_velocities float_of_str wgs84_to_geodetic files recording
                 timestamps
               = Inr (substitute_default raw ! 0 # substitute_default raw)
           \<and> length (substitute_default raw ! 0 # substitute_default raw) = length timestamps"
proof -
  have "\<forall>pose_filepath \<in> set (pose_filepaths recording timestamps).
          \<forall>rows. files pose_filepath = Some rows \<longrightarrow>
            (\<exists>p. parse_pose float_of_str rows = Inr p)"
    using assms(3) by (simp add: pose_filepaths_set)
  then obtain poses where poses:
    "load_poses float_of_str files (pose_filepaths recording timestamps) = Inr poses"
    "length poses = length timestamps"
    using load_poses_total [of "pose_filepaths recording timestamps" files float_of_str]
    by auto
  obtain raw where raw:
    "velocities_km_per_h wgs84_to_geodetic poses timestamps = Inr raw"
    "length raw = length timestamps - 1"
    using velocities_km_per_h_total [OF poses(2)] by blast
  have ne: "substitute_default raw \<noteq> []"
    using raw(2) assms(1) by (auto simp: substitute_default_def)
  then obtain v vs where vs: "substitute_default raw = v # vs"
    by (cases "substitute_default raw") auto
  have "compute_camera_motion_velocities float_of_str wgs84_to_geodetic files recording
                 timestamps
               = Inr (substitute_default raw ! 0 # substitute_default raw)"
    using assms(1) by (simp add: compute_camera_motion_velocities_def poses(1) raw(1) vs)
  moreover have "length (substitute_default raw ! 0 # substitute_default raw) = length timestamps"
    using raw(2) assms(1) by simp
  ultimately show ?thesis using poses(1) raw by auto
qed

theorem velocities_output_alignment_witness:
  "2 \<le> length [100, 250, 400 :: int]
   \<and> list_all int64 [100, 250, 400]
   \<and> load_pose example_float example_files (''rec'', 100) = Inr (Some (pose_at 1))
   \<and> load_pose example_float example_files (''rec'', 250) = Inr None
   \<and> load_pose example_float example_files (''rec'', 400) = Inr None
   \<and> (\<exists>poses raw.
           load_poses example_float example_files (pose_filepaths ''rec'' [100, 250, 400])
             = Inr poses
           \<and> velocities_km_per_h (\<lambda>la lo al. (la, lo, al)) poses [100, 250, 400] = Inr raw
           \<and> length (substitute_default raw) = length [100, 250, 400 :: int] - 1
           \<and> compute_camera_motion_velocities example_float (\<lambda>la lo al. (la, lo, al))
                 example_files ''rec'' [100, 250, 400]
               = Inr (substitute_default raw ! 0 # substitute_default raw)
           \<and> length (substitute_default raw ! 0 # substitute_default raw)
               = length [100, 250, 400 :: int])"
proof -
  have h1: "2 \<le> length [100, 250, 400 :: int]" by simp
  have h2: "\<forall>t \<in> set [100, 250, 400]. int64 t" by (simp add: int64_def)
  have h3: "\<forall>t \<in> set [100, 250, 400]. \<forall>rows. example_files (''rec'', t) = Some rows \<longrightarrow>
           (\<exists>p. parse_pose example_float rows = Inr p)"
    using parse_example_files by blast
  have l: "list_all int64 [100, 250, 400]" by (simp add: int64_def)
  show ?thesis
    using h1 l load_example_poses [of "''rec''"] velocities_output_alignment
      [OF h1 h2 h3, of "\<lambda>la lo al. (la, lo, al)"]
    by blast
qed

text \<open>
  C3: for two or more timestamps, each fitting in 64 bits, with pose files that parse
  where they exist, the function returns a list \<open>vs\<close>, the first velocity followed by
  one velocity per interval, in which every velocity that was zero or not finite
  before the substitution is 60 and every other one is unchanged; so no element of
  \<open>vs\<close> is NaN, infinite or zero. A pose is missing exactly when its file does not
  exist. An interval one of whose two poses is missing and an interval whose two
  timestamps are equal, in the list as passed in or in the sorted list, all get 60.
\<close>

theorem velocities_default_substitution:
  assumes "2 \<le> length timestamps"
    and "\<forall>t \<in> set timestamps. int64 t"
    and "\<forall>t \<in> set timestamps. \<forall>rows. files (recording, t) = Some rows \<longrightarrow>
           (\<exists>p. parse_pose float_of_str rows = Inr p)"
  shows "\<exists>poses raw vs.
           load_poses float_of_str files (pose_filepaths recording timestamps) = Inr poses
           \<and> length poses = length timestamps
           \<and> (\<forall>i < length timestamps.
                 (poses ! i = None) = (files (recording, sort timestamps ! i) = None))
           \<and> velocities_km_per_h wgs84_to_geodetic poses timestamps = Inr raw
           \<and> compute_camera_motion_velocities float_of_str wgs84_to_geodetic files recording
                 timestamps
               = Inr vs
           \<and> length raw = length timestamps - 1
           \<and> length vs = length timestamps
           \<and> (\<forall>v \<in> set vs. isfinite v \<and> v \<noteq> Fin 0)
           \<and> (\<forall>i < length raw.
                 vs ! Suc i = (if feq (raw ! i) (Fin 0) \<or> \<not> isfinite (raw ! i)
                               then Fin 60 else raw ! i))
           \<and> (\<forall>i. Suc i < length timestamps \<longrightarrow>
                 poses ! i = None
                 \<or> poses ! Suc i = None
                 \<or> timestamps ! Suc i = timestamps ! i
                 \<or> sort timestamps ! Suc i = sort timestamps ! i \<longrightarrow>
                 vs ! Suc i = Fin 60)"
proof -
  have "\<forall>pose_filepath \<in> set (pose_filepaths recording timestamps).
          \<forall>rows. files pose_filepath = Some rows \<longrightarrow>
            (\<exists>p. parse_pose float_of_str rows = Inr p)"
    using assms(3) by (simp add: pose_filepaths_set)
  then obtain poses where poses:
    "load_poses float_of_str files (pose_filepaths recording timestamps) = Inr poses"
    "length poses = length timestamps"
    and loaded: "\<And>i. i < length timestamps \<Longrightarrow>
       load_pose float_of_str files (recording, sort timestamps ! i) = Inr (poses ! i)"
    using load_poses_total [of "pose_filepaths recording timestamps" files float_of_str]
    by (auto simp: pose_filepaths_nth)
  have missing: "(poses ! i = None) = (files (recording, sort timestamps ! i) = None)"
    if "i < length timestamps" for i
    using loaded [OF that]
      load_pose_missing [of float_of_str files "(recording, sort timestamps ! i)"]
    by auto
  obtain raw where raw:
    "velocities_km_per_h wgs84_to_geodetic poses timestamps = Inr raw"
    "length raw = length timestamps - 1"
    and nth: "\<And>i. Suc i < length timestamps \<Longrightarrow>
          \<exists>d. displacement wgs84_to_geodetic (poses ! i, poses ! Suc i) = Inr d
             \<and> raw ! i
                 = d / (float_of_int (wrap_int64 (timestamps ! Suc i - timestamps ! i))
                        * Fin (1 / 10 ^ 9))
                   * Fin (36 / 10)"
    using velocities_km_per_h_total [OF poses(2), of wgs84_to_geodetic]
    by blast
  define sub where "sub = substitute_default raw"
  define vs where "vs = sub ! 0 # sub"
  have lsub: "length sub = length timestamps - 1"
    by (simp add: sub_def raw(2))
  then have ne: "sub \<noteq> []" using assms(1) by auto
  then obtain v rest where sub: "sub = v # rest" by (cases sub) auto
  have c: "compute_camera_motion_velocities float_of_str wgs84_to_geodetic files recording
             timestamps = Inr vs"
    using assms(1) by (simp add: compute_camera_motion_velocities_def poses(1) raw(1) vs_def
        sub_def [symmetric] sub)
  have lv: "length vs = length timestamps"
    using lsub assms(1) by (simp add: vs_def)
  have "set vs = set sub"
    using ne by (auto simp: vs_def)
  then have fin: "\<forall>v \<in> set vs. isfinite v \<and> v \<noteq> Fin 0"
    using substitute_default_elem by (simp add: sub_def)
  have repl: "vs ! Suc i = (if feq (raw ! i) (Fin 0) \<or> \<not> isfinite (raw ! i)
                               then Fin 60 else raw ! i)"
    if "i < length raw" for i
    using that by (simp add: vs_def sub_def substitute_default_nth)
  have deg: "vs ! Suc i = Fin 60"
    if i: "Suc i < length timestamps"
      and h: "poses ! i = None
            \<or> poses ! Suc i = None
            \<or> timestamps ! Suc i = timestamps ! i
            \<or> sort timestamps ! Suc i = sort timestamps ! i"
    for i
  proof -
    have il: "i < length raw" using i raw(2) by simp
    obtain d where d: "displacement wgs84_to_geodetic (poses ! i, poses ! Suc i) = Inr d"
      and r: "raw ! i
                 = d / (float_of_int (wrap_int64 (timestamps ! Suc i - timestamps ! i))
                        * Fin (1 / 10 ^ 9))
                   * Fin (36 / 10)"
      using nth [OF i] by blast
    have "feq (raw ! i) (Fin 0) \<or> \<not> isfinite (raw ! i)"
    proof (cases "timestamps ! Suc i = timestamps ! i")
      case True
      then have "raw ! i = d / Fin 0 * Fin (36 / 10)"
        by (simp add: r float_of_int_def)
      then show ?thesis by (simp only: divide_by_zero_not_finite simp_thms)
    next
      case False
      have "zero_or_nan d"
      proof (cases "poses ! i = None \<or> poses ! Suc i = None")
        case True
        then have "d = Fin 0"
          using d displacement_missing [of "poses ! i" "poses ! Suc i" wgs84_to_geodetic]
          by auto
        then show ?thesis by (simp add: zero_or_nan_def)
      next
        case present: False
        with h False have "sort timestamps ! Suc i = sort timestamps ! i" by blast
        then have "load_pose float_of_str files (recording, sort timestamps ! i)
            = Inr (poses ! Suc i)"
          using loaded [of "Suc i"] i by simp
        moreover have "load_pose float_of_str files (recording, sort timestamps ! i)
            = Inr (poses ! i)"
          using loaded [of i] i by simp
        ultimately have "poses ! Suc i = poses ! i" by simp
        moreover obtain p where "poses ! i = Some p"
          using present by auto
        ultimately have "displacement wgs84_to_geodetic (Some p, Some p) = Inr d"
          using d by simp
        then show ?thesis by (rule displacement_same_pose)
      qed
      moreover have "raw ! i
          = d / Fin (real_of_int (wrap_int64 (timestamps ! Suc i - timestamps ! i))
                     * (1 / 10 ^ 9))
            * Fin (36 / 10)"
        by (simp add: r float_of_int_def)
      ultimately show ?thesis by (simp only: zero_or_nan_velocity)
    qed
    then show ?thesis using repl [OF il] by simp
  qed
  show ?thesis
    using poses missing raw c lv fin repl deg by blast
qed

theorem velocities_default_substitution_witness:
  "2 \<le> length [100, 100, 400 :: int]
   \<and> list_all int64 [100, 100, 400]
   \<and> load_pose example_float example_files (''rec'', 100) = Inr (Some (pose_at 1))
   \<and> load_pose example_float example_files (''rec'', 400) = Inr None
   \<and> (\<exists>poses raw vs.
           load_poses example_float example_files (pose_filepaths ''rec'' [100, 100, 400])
             = Inr poses
           \<and> length poses = length [100, 100, 400 :: int]
           \<and> (\<forall>i < length [100, 100, 400 :: int].
                 (poses ! i = None)
                   = (example_files (''rec'', sort [100, 100, 400] ! i) = None))
           \<and> velocities_km_per_h (\<lambda>la lo al. (la, lo, al)) poses [100, 100, 400] = Inr raw
           \<and> compute_camera_motion_velocities example_float (\<lambda>la lo al. (la, lo, al))
                 example_files ''rec'' [100, 100, 400]
               = Inr vs
           \<and> length raw = length [100, 100, 400 :: int] - 1
           \<and> length vs = length [100, 100, 400 :: int]
           \<and> (\<forall>v \<in> set vs. isfinite v \<and> v \<noteq> Fin 0)
           \<and> (\<forall>i < length raw.
                 vs ! Suc i = (if feq (raw ! i) (Fin 0) \<or> \<not> isfinite (raw ! i)
                               then Fin 60 else raw ! i))
           \<and> (\<forall>i. Suc i < length [100, 100, 400 :: int] \<longrightarrow>
                 poses ! i = None
                 \<or> poses ! Suc i = None
                 \<or> [100, 100, 400 :: int] ! Suc i = [100, 100, 400] ! i
                 \<or> sort [100, 100, 400 :: int] ! Suc i = sort [100, 100, 400 :: int] ! i
                 \<longrightarrow> vs ! Suc i = Fin 60))
   \<and> compute_camera_motion_velocities example_float (\<lambda>la lo al. (la, lo, al))
       example_files ''rec'' [100, 100, 400] = Inr [Fin 60, Fin 60, Fin 60]"
proof -
  have h1: "2 \<le> length [100, 100, 400 :: int]" by simp
  have h2: "\<forall>t \<in> set [100, 100, 400]. int64 t" by (simp add: int64_def)
  have h3: "\<forall>t \<in> set [100, 100, 400]. \<forall>rows. example_files (''rec'', t) = Some rows \<longrightarrow>
           (\<exists>p. parse_pose example_float rows = Inr p)"
    using parse_example_files by blast
  have e: "compute_camera_motion_velocities example_float (\<lambda>la lo al. (la, lo, al))
       example_files ''rec'' [100, 100, 400] = Inr [Fin 60, Fin 60, Fin 60]"
    by (simp add: compute_camera_motion_velocities_def pose_filepaths_def load_example_poses
        velocities_km_per_h_def displacement_def translation_pose_at linalg_norm_def
        np_dot_def time_diff_def wrap_int64_def float_of_int_def substitute_default_def
        DEFAULT_SPEED_def Let_def divide_pyfloat_def times_pyfloat_def inf_of_sign_def)
  have l: "list_all int64 [100, 100, 400]" by (simp add: int64_def)
  show ?thesis
    using h1 l e load_example_poses [of "''rec''"] velocities_default_substitution
      [OF h1 h2 h3, of "\<lambda>la lo al. (la, lo, al)"]
    by blast
qed

text \<open>
  C1: the poses are loaded in the order of the sorted timestamps, but the elapsed times
  are the differences of the timestamps as they were passed in. For the timestamps
  200, 100, 300 the poses are those of 100, 200, 300 while the elapsed times are
  those of the pairs (200, 100) and (100, 300): -100 ns and 200 ns, not the 100 ns
  and 100 ns of the sorted pairs. With poses one metre apart the function returns
  the speeds -36000000, -36000000, 18000000 km/h; on the sorted list it returns
  36000000 km/h three times.
\<close>

theorem elapsed_time_of_unsorted_timestamps:
  "pose_filepaths recording [200, 100, 300]
      = [(recording, 100), (recording, 200), (recording, 300)]
   \<and> load_poses example_float example_files (pose_filepaths ''rec'' [200, 100, 300])
      = Inr [Some (pose_at 1), Some (pose_at 2), Some (pose_at 3)]
   \<and> time_diff [200, 100, 300] = [Fin (- 100 / 10 ^ 9), Fin (200 / 10 ^ 9)]
   \<and> time_diff (sort [200, 100, 300]) = [Fin (100 / 10 ^ 9), Fin (100 / 10 ^ 9)]
   \<and> compute_camera_motion_velocities example_float (\<lambda>la lo al. (la, lo, al))
        example_files ''rec'' [200, 100, 300]
      = Inr [Fin (- 36000000), Fin (- 36000000), Fin 18000000]
   \<and> compute_camera_motion_velocities example_float (\<lambda>la lo al. (la, lo, al))
        example_files ''rec'' [100, 200, 300]
      = Inr [Fin 36000000, Fin 36000000, Fin 36000000]"
proof -
  have f: "pose_filepaths recording [200, 100, 300]
      = [(recording, 100), (recording, 200), (recording, 300)]"
    by (simp add: pose_filepaths_def)
  have l: "load_poses example_float example_files (pose_filepaths ''rec'' [200, 100, 300])
      = Inr [Some (pose_at 1), Some (pose_at 2), Some (pose_at 3)]"
    by (simp add: pose_filepaths_def load_example_poses)
  have t: "time_diff [200, 100, 300] = [Fin (- 100 / 10 ^ 9), Fin (200 / 10 ^ 9)]"
    by (simp add: time_diff_def wrap_int64_def float_of_int_def)
  have s: "time_diff (sort [200, 100, 300]) = [Fin (100 / 10 ^ 9), Fin (100 / 10 ^ 9)]"
    by (simp add: time_diff_def wrap_int64_def float_of_int_def)
  have u: "compute_camera_motion_velocities example_float (\<lambda>la lo al. (la, lo, al))
        example_files ''rec'' [200, 100, 300]
      = Inr [Fin (- 36000000), Fin (- 36000000), Fin 18000000]"
    by (simp add: compute_camera_motion_velocities_def pose_filepaths_def load_example_poses
        velocities_km_per_h_def displacement_def translation_pose_at linalg_norm_def
        np_dot_def time_diff_def wrap_int64_def float_of_int_def substitute_default_def
        DEFAULT_SPEED_def Let_def)
  have o: "compute_camera_motion_velocities example_float (\<lambda>la lo al. (la, lo, al))
        example_files ''rec'' [100, 200, 300]
      = Inr [Fin 36000000, Fin 36000000, Fin 36000000]"
    by (simp add: compute_camera_motion_velocities_def pose_filepaths_def load_example_poses
        velocities_km_per_h_def displacement_def translation_pose_at linalg_norm_def
        np_dot_def time_diff_def wrap_int64_def float_of_int_def substitute_default_def
        DEFAULT_SPEED_def Let_def)
  from f l t s u o show ?thesis by (intro conjI)
qed

end
